theory Spec2Isabelle
  imports Complex_Main "HOL-Library.Monad_Syntax"
begin

section \<open>Order model (src/abides/order/types.py)\<close>

text \<open>
  An order object is its class together with the values of its slots. The base class
  \<^verbatim>\<open>Order\<close> (abides/order/base.py) is not among the sources; its slots are the ones
  the methods of types.py read and write: \<^verbatim>\<open>agent_id\<close>, \<^verbatim>\<open>time_placed\<close>, \<^verbatim>\<open>symbol\<close>,
  \<^verbatim>\<open>quantity\<close>, \<^verbatim>\<open>order_id\<close>, \<^verbatim>\<open>tag\<close> and \<^verbatim>\<open>fill_price\<close>. The class of the
  instance is the field \<open>cls\<close>: \<^verbatim>\<open>self.__class__\<close>. A \<^verbatim>\<open>pd.Timestamp\<close> is its number of
  nanoseconds, a Python \<^verbatim>\<open>int\<close> is an \<open>int\<close>, the opaque \<^verbatim>\<open>tag\<close> is \<^verbatim>\<open>None\<close> or a
  string.
\<close>

datatype market_class = BuyMarket | SellMarket

datatype limit_class = Bid | Ask

datatype basket_class = BasketOrder

record 'c Order =
  cls :: 'c
  agent_id :: int
  time_placed :: int
  symbol :: string
  quantity :: int
  order_id :: int
  tag :: "string option"
  fill_price :: "int option"

record 'c LimitOrder = "'c Order" +
  limit_price :: int

record 'c BasketOrder = "'c Order" +
  dollar :: bool

text \<open>
  \<^verbatim>\<open>is_buy_order\<close> is a class attribute: \<^verbatim>\<open>BuyMarket.is_buy_order = True\<close>,
  \<^verbatim>\<open>SellMarket.is_buy_order = False\<close>, \<^verbatim>\<open>Bid.is_buy_order = True\<close>,
  \<^verbatim>\<open>Ask.is_buy_order = False\<close>. Reading \<^verbatim>\<open>self.is_buy_order\<close> on an instance looks the
  attribute up in the instance's class.
\<close>

fun market_is_buy_order :: "market_class \<Rightarrow> bool" where
  "market_is_buy_order BuyMarket = True"
| "market_is_buy_order SellMarket = False"

fun limit_is_buy_order :: "limit_class \<Rightarrow> bool" where
  "limit_is_buy_order Bid = True"
| "limit_is_buy_order Ask = False"

definition is_buy_order :: "(limit_class, 'z) Order_scheme \<Rightarrow> bool" where
  "is_buy_order self = limit_is_buy_order (cls self)"

definition mkt_is_buy_order :: "(market_class, 'z) Order_scheme \<Rightarrow> bool" where
  "mkt_is_buy_order self = market_is_buy_order (cls self)"

fun class_name :: "limit_class \<Rightarrow> string" where
  "class_name Bid = ''Bid''"
| "class_name Ask = ''Ask''"

subsection \<open>Constructors\<close>

text \<open>
  Modelled from the spec: \<^verbatim>\<open>Order.__init__\<close> of abides/order/base.py, which is missing
  from the sources. The spec: "each variant exposes construction with required
  identity/price/quantity fields and optional \<^verbatim>\<open>order_id\<close>/\<^verbatim>\<open>tag\<close>; if \<^verbatim>\<open>order_id\<close> is
  omitted the caller (kernel) assigns a fresh globally-unique id", and \<^verbatim>\<open>fill_price\<close> is
  "\<^verbatim>\<open>None\<close>/absent until executed". The fresh id is the parameter \<open>fresh\<close>.
\<close>

definition Order_init ::
  "int \<Rightarrow> 'c \<Rightarrow> int \<Rightarrow> int \<Rightarrow> string \<Rightarrow> int \<Rightarrow> int option \<Rightarrow> string option \<Rightarrow> 'c Order" where
  "Order_init fresh c agent time smb qty oid tg =
     \<lparr> cls = c, agent_id = agent, time_placed = time, symbol = smb, quantity = qty,
       order_id = (case oid of None \<Rightarrow> fresh | Some i \<Rightarrow> i),
       tag = tg, fill_price = None \<rparr>"

text \<open>
  \<^verbatim>\<open>MarketOrder\<close> has no \<^verbatim>\<open>__init__\<close> of its own: it is the base constructor.
  \<^verbatim>\<open>LimitOrder.__init__\<close> calls the base constructor and stores \<^verbatim>\<open>limit_price\<close>;
  \<^verbatim>\<open>BasketOrder.__init__\<close> calls the base constructor without a tag (so the tag is the
  default \<^verbatim>\<open>None\<close>) and stores \<^verbatim>\<open>dollar\<close>.
\<close>

definition MarketOrder_init ::
  "int \<Rightarrow> market_class \<Rightarrow> int \<Rightarrow> int \<Rightarrow> string \<Rightarrow> int \<Rightarrow> int option \<Rightarrow> string option
     \<Rightarrow> market_class Order" where
  "MarketOrder_init fresh c agent time smb qty oid tg = Order_init fresh c agent time smb qty oid tg"

definition LimitOrder_init ::
  "int \<Rightarrow> limit_class \<Rightarrow> int \<Rightarrow> int \<Rightarrow> string \<Rightarrow> int \<Rightarrow> int \<Rightarrow> int option \<Rightarrow> string option
     \<Rightarrow> limit_class LimitOrder" where
  "LimitOrder_init fresh c agent time smb qty lp oid tg =
     Order.extend (Order_init fresh c agent time smb qty oid tg) (LimitOrder.fields lp)"

definition BasketOrder_init ::
  "int \<Rightarrow> basket_class \<Rightarrow> int \<Rightarrow> int \<Rightarrow> string \<Rightarrow> int \<Rightarrow> bool \<Rightarrow> int option
     \<Rightarrow> basket_class BasketOrder" where
  "BasketOrder_init fresh c agent time smb qty dl oid =
     Order.extend (Order_init fresh c agent time smb qty oid None) (BasketOrder.fields dl)"

subsection \<open>Rendering of a limit order\<close>

text \<open>
  \<^verbatim>\<open>silent_mode\<close> (abides/order/base.py), \<^verbatim>\<open>dollarize\<close> (abides/util) and
  \<^verbatim>\<open>Kernel.fmtTime\<close> (abides/core) are not among the sources: they are parameters.
  \<^verbatim>\<open>sys.maxsize\<close> is the one of a 64-bit CPython.
\<close>

record env =
  silent_mode :: bool
  dollarize :: "int \<Rightarrow> string"
  fmtTime :: "int \<Rightarrow> string"

definition sys_maxsize :: int where
  "sys_maxsize = 2 ^ 63 - 1"

text \<open>\<^verbatim>\<open>str\<close> of an integer, as an f-string renders it: its decimal digits.\<close>

definition digit_char :: "nat \<Rightarrow> char" where
  "digit_char n = ''0123456789'' ! n"

fun str_nat :: "nat \<Rightarrow> string" where
  "str_nat n = (if n < 10 then [digit_char n] else str_nat (n div 10) @ [digit_char (n mod 10)])"

declare str_nat.simps [simp del]

definition str_int :: "int \<Rightarrow> string" where
  "str_int i = (if i < 0 then CHR ''-'' # str_nat (nat (- i)) else str_nat (nat i))"

definition tag_info :: "string option \<Rightarrow> string" where
  "tag_info tg = (case tg of None \<Rightarrow> '''' | Some t \<Rightarrow> '' ['' @ t @ '']'')"

definition limit_info :: "env \<Rightarrow> int \<Rightarrow> string" where
  "limit_info e lp = (if lp < sys_maxsize then dollarize e lp else ''MKT'')"

text \<open>\<^verbatim>\<open>if fill_price\<close>: \<^verbatim>\<open>None\<close> and \<^verbatim>\<open>0\<close> are both false.\<close>

definition filled :: "env \<Rightarrow> int option \<Rightarrow> string" where
  "filled e fp =
     (case fp of None \<Rightarrow> ''''
      | Some p \<Rightarrow> if p = 0 then '''' else '' (filled @ '' @ dollarize e p @ '')'')"

definition LimitOrder_str :: "env \<Rightarrow> limit_class LimitOrder \<Rightarrow> string" where
  "LimitOrder_str e self =
     (if silent_mode e then ''''
      else ''(Agent '' @ str_int (agent_id self) @ '' @ '' @ fmtTime e (time_placed self)
           @ tag_info (tag self) @ '') : ''
           @ (if is_buy_order self then ''BUY'' else ''SELL'') @ '' '' @ str_int (quantity self)
           @ '' '' @ symbol self @ '' @ '' @ limit_info e (limit_price self)
           @ filled e (fill_price self))"

subsection \<open>Price comparisons\<close>

text \<open>
  A call returns its result and the lines it prints. \<^verbatim>\<open>isMatch\<close> compares the directions
  with \<^verbatim>\<open>is\<close>, which on the two booleans \<^verbatim>\<open>True\<close> and \<^verbatim>\<open>False\<close> is equality.
\<close>

definition isMatch :: "env \<Rightarrow> limit_class LimitOrder \<Rightarrow> limit_class LimitOrder \<Rightarrow> bool \<times> string list" where
  "isMatch e self other =
     (if is_buy_order self = is_buy_order other
      then (False, [''WARNING: isMatch() called on limit orders of same type: ''
                    @ LimitOrder_str e self @ '' vs '' @ LimitOrder_str e other])
      else if is_buy_order self then (limit_price self \<ge> limit_price other, [])
      else (limit_price self \<le> limit_price other, []))"

definition hasEqPrice :: "limit_class LimitOrder \<Rightarrow> limit_class LimitOrder \<Rightarrow> bool" where
  "hasEqPrice self other = (limit_price self = limit_price other)"

definition hasBetterPrice :: "limit_class LimitOrder \<Rightarrow> limit_class LimitOrder \<Rightarrow> bool \<times> string list" where
  "hasBetterPrice self other =
     (if is_buy_order self \<noteq> is_buy_order other
      then (False, [''WARNING: hasBetterPrice() called on orders of different type: ''
                    @ class_name (cls self) @ '' vs '' @ class_name (cls other)])
      else if is_buy_order self then (limit_price self > limit_price other, [])
      else (limit_price self < limit_price other, []))"

subsection \<open>Copies\<close>

text \<open>
  \<^verbatim>\<open>__copy__\<close> and \<^verbatim>\<open>__deepcopy__\<close> build a new instance of \<^verbatim>\<open>self.__class__\<close> through
  the constructor, passing \<^verbatim>\<open>self.order_id\<close>, and then assign \<^verbatim>\<open>fill_price\<close>.
  \<^verbatim>\<open>deepcopy\<close> of a tag that is \<^verbatim>\<open>None\<close> or a string is that value.
  \<^verbatim>\<open>BasketOrder.__copy__\<close> passes no tag; \<^verbatim>\<open>BasketOrder.__deepcopy__\<close> is
  \<^verbatim>\<open>self.__copy__()\<close>.
\<close>

definition deepcopy_tag :: "string option \<Rightarrow> string option" where
  "deepcopy_tag tg = tg"

definition MarketOrder_copy :: "int \<Rightarrow> market_class Order \<Rightarrow> market_class Order" where
  "MarketOrder_copy fresh self =
     (MarketOrder_init fresh (cls self) (agent_id self) (time_placed self) (symbol self)
        (quantity self) (Some (order_id self)) (tag self))
     \<lparr> fill_price := fill_price self \<rparr>"

definition MarketOrder_deepcopy :: "int \<Rightarrow> market_class Order \<Rightarrow> market_class Order" where
  "MarketOrder_deepcopy fresh self =
     (MarketOrder_init fresh (cls self) (agent_id self) (time_placed self) (symbol self)
        (quantity self) (Some (order_id self)) (deepcopy_tag (tag self)))
     \<lparr> fill_price := fill_price self \<rparr>"

definition LimitOrder_copy :: "int \<Rightarrow> limit_class LimitOrder \<Rightarrow> limit_class LimitOrder" where
  "LimitOrder_copy fresh self =
     (LimitOrder_init fresh (cls self) (agent_id self) (time_placed self) (symbol self)
        (quantity self) (limit_price self) (Some (order_id self)) (tag self))
     \<lparr> fill_price := fill_price self \<rparr>"

definition LimitOrder_deepcopy :: "int \<Rightarrow> limit_class LimitOrder \<Rightarrow> limit_class LimitOrder" where
  "LimitOrder_deepcopy fresh self =
     (LimitOrder_init fresh (cls self) (agent_id self) (time_placed self) (symbol self)
        (quantity self) (limit_price self) (Some (order_id self)) (deepcopy_tag (tag self)))
     \<lparr> fill_price := fill_price self \<rparr>"

definition BasketOrder_copy :: "int \<Rightarrow> basket_class BasketOrder \<Rightarrow> basket_class BasketOrder" where
  "BasketOrder_copy fresh self =
     (BasketOrder_init fresh (cls self) (agent_id self) (time_placed self) (symbol self)
        (quantity self) (dollar self) (Some (order_id self)))
     \<lparr> fill_price := fill_price self \<rparr>"

definition BasketOrder_deepcopy :: "int \<Rightarrow> basket_class BasketOrder \<Rightarrow> basket_class BasketOrder" where
  "BasketOrder_deepcopy fresh self = BasketOrder_copy fresh self"

subsection \<open>Objects in a store\<close>

text \<open>
  Orders are mutable objects: \<^verbatim>\<open>order.fill_price = ...\<close> writes a slot of one instance, and
  a copy is a second instance. The store is the list of the instances created so far; a
  reference is an index into it, and creating an instance appends to it. The lines written
  by \<^verbatim>\<open>print\<close> are collected in \<open>stdout\<close>.
\<close>

datatype obj =
    MarketObj "market_class Order"
  | LimitObj "limit_class LimitOrder"
  | BasketObj "basket_class BasketOrder"

record world =
  heap :: "obj list"
  stdout :: "string list"

definition lookup :: "world \<Rightarrow> nat \<Rightarrow> obj option" where
  "lookup w r = (if r < length (heap w) then Some (heap w ! r) else None)"

definition limit_at :: "world \<Rightarrow> nat \<Rightarrow> limit_class LimitOrder option" where
  "limit_at w r = (case lookup w r of Some (LimitObj l) \<Rightarrow> Some l | _ \<Rightarrow> None)"

definition new :: "world \<Rightarrow> obj \<Rightarrow> nat \<times> world" where
  "new w ob = (length (heap w), w\<lparr> heap := heap w @ [ob] \<rparr>)"

fun obj_copy :: "int \<Rightarrow> obj \<Rightarrow> obj" where
  "obj_copy fresh (MarketObj m) = MarketObj (MarketOrder_copy fresh m)"
| "obj_copy fresh (LimitObj l) = LimitObj (LimitOrder_copy fresh l)"
| "obj_copy fresh (BasketObj b) = BasketObj (BasketOrder_copy fresh b)"

fun obj_deepcopy :: "int \<Rightarrow> obj \<Rightarrow> obj" where
  "obj_deepcopy fresh (MarketObj m) = MarketObj (MarketOrder_deepcopy fresh m)"
| "obj_deepcopy fresh (LimitObj l) = LimitObj (LimitOrder_deepcopy fresh l)"
| "obj_deepcopy fresh (BasketObj b) = BasketObj (BasketOrder_deepcopy fresh b)"

fun obj_set_fill_price :: "int option \<Rightarrow> obj \<Rightarrow> obj" where
  "obj_set_fill_price p (MarketObj m) = MarketObj (m\<lparr> fill_price := p \<rparr>)"
| "obj_set_fill_price p (LimitObj l) = LimitObj (l\<lparr> fill_price := p \<rparr>)"
| "obj_set_fill_price p (BasketObj b) = BasketObj (b\<lparr> fill_price := p \<rparr>)"

text \<open>\<^verbatim>\<open>copy(o)\<close>, \<^verbatim>\<open>deepcopy(o)\<close> and \<^verbatim>\<open>o.fill_price = p\<close> on the object at a reference.\<close>

definition copy :: "int \<Rightarrow> world \<Rightarrow> nat \<Rightarrow> (nat \<times> world) option" where
  "copy fresh w r = do { self \<leftarrow> lookup w r; Some (new w (obj_copy fresh self)) }"

definition deepcopy :: "int \<Rightarrow> world \<Rightarrow> nat \<Rightarrow> (nat \<times> world) option" where
  "deepcopy fresh w r = do { self \<leftarrow> lookup w r; Some (new w (obj_deepcopy fresh self)) }"

definition set_fill_price :: "world \<Rightarrow> nat \<Rightarrow> int option \<Rightarrow> world option" where
  "set_fill_price w r p =
     do { self \<leftarrow> lookup w r; Some (w\<lparr> heap := (heap w)[r := obj_set_fill_price p self] \<rparr>) }"

text \<open>The two comparisons called on the limit orders at two references.\<close>

definition call_isMatch :: "env \<Rightarrow> world \<Rightarrow> nat \<Rightarrow> nat \<Rightarrow> (bool \<times> world) option" where
  "call_isMatch e w a b =
     do { self \<leftarrow> limit_at w a; other \<leftarrow> limit_at w b;
          Some (fst (isMatch e self other), w\<lparr> stdout := stdout w @ snd (isMatch e self other) \<rparr>) }"

definition call_hasBetterPrice :: "world \<Rightarrow> nat \<Rightarrow> nat \<Rightarrow> (bool \<times> world) option" where
  "call_hasBetterPrice w a b =
     do { self \<leftarrow> limit_at w a; other \<leftarrow> limit_at w b;
          Some (fst (hasBetterPrice self other),
                w\<lparr> stdout := stdout w @ snd (hasBetterPrice self other) \<rparr>) }"

text \<open>The slots of an object, whatever its class.\<close>

fun obj_order_id :: "obj \<Rightarrow> int" where
  "obj_order_id (MarketObj m) = order_id m"
| "obj_order_id (LimitObj l) = order_id l"
| "obj_order_id (BasketObj b) = order_id b"

fun obj_quantity :: "obj \<Rightarrow> int" where
  "obj_quantity (MarketObj m) = quantity m"
| "obj_quantity (LimitObj l) = quantity l"
| "obj_quantity (BasketObj b) = quantity b"

fun obj_tag :: "obj \<Rightarrow> string option" where
  "obj_tag (MarketObj m) = tag m"
| "obj_tag (LimitObj l) = tag l"
| "obj_tag (BasketObj b) = tag b"

fun obj_fill_price :: "obj \<Rightarrow> int option" where
  "obj_fill_price (MarketObj m) = fill_price m"
| "obj_fill_price (LimitObj l) = fill_price l"
| "obj_fill_price (BasketObj b) = fill_price b"

fun obj_limit_price :: "obj \<Rightarrow> int option" where
  "obj_limit_price (MarketObj m) = None"
| "obj_limit_price (LimitObj l) = Some (limit_price l)"
| "obj_limit_price (BasketObj b) = None"

datatype order_class = MarketClass market_class | LimitClass limit_class | BasketClass basket_class

fun obj_class :: "obj \<Rightarrow> order_class" where
  "obj_class (MarketObj m) = MarketClass (cls m)"
| "obj_class (LimitObj l) = LimitClass (cls l)"
| "obj_class (BasketObj b) = BasketClass (cls b)"

text \<open>
  \<^verbatim>\<open>self.is_buy_order\<close> of an object of one of the four classes that set it. The class
  \<^verbatim>\<open>BasketOrder\<close> sets none: there it is whatever the missing base class gives.
\<close>

fun obj_is_buy_order :: "obj \<Rightarrow> bool option" where
  "obj_is_buy_order (MarketObj m) = Some (mkt_is_buy_order m)"
| "obj_is_buy_order (LimitObj l) = Some (is_buy_order l)"
| "obj_is_buy_order (BasketObj b) = None"

subsection \<open>Sequences of operations on orders\<close>

text \<open>
  What a client of types.py can do to the orders of a store: construct an order of one of
  the five concrete classes, copy or deep-copy one, assign to \<^verbatim>\<open>fill_price\<close>, and call
  \<^verbatim>\<open>isMatch\<close> or \<^verbatim>\<open>hasBetterPrice\<close>. The first argument of a construction is the fresh id
  the constructor uses when no \<^verbatim>\<open>order_id\<close> is given. An operation on a reference that
  does not denote an order of the right kind gives \<open>None\<close>.
\<close>

datatype op =
    NewMarket int market_class int int string int "int option" "string option"
  | NewLimit int limit_class int int string int int "int option" "string option"
  | NewBasket int int int string int bool "int option"
  | Copy int nat
  | DeepCopy int nat
  | SetFillPrice nat "int option"
  | IsMatch nat nat
  | HasBetterPrice nat nat

fun exec :: "env \<Rightarrow> op \<Rightarrow> world \<Rightarrow> world option" where
  "exec e (NewMarket fresh c agent time smb qty oid tg) w =
     Some (snd (new w (MarketObj (MarketOrder_init fresh c agent time smb qty oid tg))))"
| "exec e (NewLimit fresh c agent time smb qty lp oid tg) w =
     Some (snd (new w (LimitObj (LimitOrder_init fresh c agent time smb qty lp oid tg))))"
| "exec e (NewBasket fresh agent time smb qty dl oid) w =
     Some (snd (new w (BasketObj (BasketOrder_init fresh BasketOrder agent time smb qty dl oid))))"
| "exec e (Copy fresh r) w = map_option snd (copy fresh w r)"
| "exec e (DeepCopy fresh r) w = map_option snd (deepcopy fresh w r)"
| "exec e (SetFillPrice r p) w = set_fill_price w r p"
| "exec e (IsMatch a b) w = map_option snd (call_isMatch e w a b)"
| "exec e (HasBetterPrice a b) w = map_option snd (call_hasBetterPrice w a b)"

fun run :: "env \<Rightarrow> op list \<Rightarrow> world \<Rightarrow> world option" where
  "run e [] w = Some w"
| "run e (x # xs) w = (case exec e x w of None \<Rightarrow> None | Some w' \<Rightarrow> run e xs w')"

text \<open>
  The tag of a basket order is the one its constructor gives it: \<^verbatim>\<open>BasketOrder.__init__\<close>
  takes no tag and passes none on.
\<close>

fun constructible :: "obj \<Rightarrow> bool" where
  "constructible (MarketObj m) = True"
| "constructible (LimitObj l) = True"
| "constructible (BasketObj b) = (tag b = None)"

section \<open>Fundamental-value oracle (src/oracle/ExternalFileOracle.py)\<close>

text \<open>
  A fundamental series is a pandas \<^verbatim>\<open>Series\<close> over a time index: the list of its
  (timestamp, value) rows in the order of the index. Timestamps are nanoseconds. The values
  are floats in the source; here they are exact rationals, so the rounding of float
  arithmetic and the values \<^verbatim>\<open>inf\<close> and \<^verbatim>\<open>nan\<close> are outside the model. The oracle's slots
  are \<^verbatim>\<open>mkt_open\<close>, \<^verbatim>\<open>symbols\<close> (symbol to the path of its file), \<^verbatim>\<open>fundamentals\<close>
  and \<^verbatim>\<open>f_log\<close> (symbol to the list of logged \<^verbatim>\<open>FundamentalTime\<close>/\<^verbatim>\<open>FundamentalValue\<close>
  pairs). \<^verbatim>\<open>log_print\<close> (util) only writes diagnostics and is left out.
\<close>

datatype py_error = KeyError | IndexError | ZeroDivisionError | AttributeError | ValueError

type_synonym series = "(int \<times> rat) list"

record ExternalFileOracle =
  mkt_open :: "int option"
  symbols :: "string \<rightharpoonup> string"
  fundamentals :: "string \<rightharpoonup> series"
  f_log :: "string \<rightharpoonup> (int \<times> rat) list"

text \<open>Positional indexing with Python's negative indices.\<close>

definition py_index :: "'a list \<Rightarrow> int \<Rightarrow> py_error + 'a" where
  "py_index xs i =
     (if 0 \<le> i \<and> i < int (length xs) then Inr (xs ! nat i)
      else if i < 0 \<and> - int (length xs) \<le> i then Inr (xs ! nat (int (length xs) + i))
      else Inl IndexError)"

text \<open>\<^verbatim>\<open>bisect.bisect_left(a, x)\<close> of the standard library: the loop on \<^verbatim>\<open>lo\<close> and \<^verbatim>\<open>hi\<close>.\<close>

function bisect_loop :: "int list \<Rightarrow> int \<Rightarrow> nat \<Rightarrow> nat \<Rightarrow> nat" where
  "bisect_loop a x lo hi =
     (if lo < hi
      then (let mid = (lo + hi) div 2
            in if a ! mid < x then bisect_loop a x (mid + 1) hi else bisect_loop a x lo mid)
      else lo)"
  by pat_completeness auto
termination
  by (relation "measure (\<lambda>(a, x, lo, hi). hi - lo)") auto

declare bisect_loop.simps [simp del]

definition bisect_left :: "int list \<Rightarrow> int \<Rightarrow> nat" where
  "bisect_left a x = bisect_loop a x 0 (length a)"

text \<open>\<^verbatim>\<open>Timedelta.total_seconds()\<close> of a difference of two timestamps.\<close>

definition total_seconds :: "int \<Rightarrow> rat" where
  "total_seconds ns = of_int ns / 1000000000"

text \<open>
  \<^verbatim>\<open>getInterpolatedPrice\<close>. The division \<^verbatim>\<open>delta_y / delta_x\<close> is made only when the two
  prices differ; by a zero \<^verbatim>\<open>delta_x\<close> it is Python's \<^verbatim>\<open>ZeroDivisionError\<close>.
\<close>

definition getInterpolatedPrice :: "int \<Rightarrow> int \<Rightarrow> int \<Rightarrow> rat \<Rightarrow> rat \<Rightarrow> py_error + rat" where
  "getInterpolatedPrice current_time time_low time_high price_low price_high =
     (let delta_y = price_high - price_low;
          delta_x = total_seconds (time_high - time_low)
      in if price_low \<noteq> price_high \<and> delta_x = 0 then Inl ZeroDivisionError
         else (let slope = (if price_low \<noteq> price_high then delta_y / delta_x else 0);
                   x_fwd = total_seconds (current_time - time_low)
               in Inr (price_low + x_fwd * slope)))"

text \<open>
  The branch of \<^verbatim>\<open>getPriceAtTime\<close> for a time within the series: the rows on either side
  of the query, the interpolated price, and the entry appended to \<^verbatim>\<open>f_log[symbol]\<close>.
\<close>

definition interpolate_and_log ::
  "ExternalFileOracle \<Rightarrow> string \<Rightarrow> series \<Rightarrow> int \<Rightarrow> py_error + (rat \<times> ExternalFileOracle)" where
  "interpolate_and_log self smb fundamental_series query_time =
     (let lower_idx = int (bisect_left (map fst fundamental_series) query_time) - 1;
          upper_idx = (if lower_idx < int (length fundamental_series) - 1
                       then lower_idx + 1 else lower_idx)
      in case py_index fundamental_series lower_idx of Inl err \<Rightarrow> Inl err
         | Inr (time_low, lower_val) \<Rightarrow>
       (case py_index fundamental_series upper_idx of Inl err \<Rightarrow> Inl err
         | Inr (time_high, upper_val) \<Rightarrow>
       (case getInterpolatedPrice query_time time_low time_high lower_val upper_val of
           Inl err \<Rightarrow> Inl err
         | Inr interpolated_price \<Rightarrow>
       (case f_log self smb of None \<Rightarrow> Inl KeyError
         | Some entries \<Rightarrow>
             Inr (interpolated_price,
                  self\<lparr> f_log := (f_log self)(smb \<mapsto>
                           entries @ [(query_time, interpolated_price)]) \<rparr>)))))"

definition getPriceAtTime ::
  "ExternalFileOracle \<Rightarrow> string \<Rightarrow> int \<Rightarrow> py_error + (rat \<times> ExternalFileOracle)" where
  "getPriceAtTime self smb query_time =
     (case fundamentals self smb of None \<Rightarrow> Inl KeyError
      | Some fundamental_series \<Rightarrow>
          (case fundamental_series of [] \<Rightarrow> Inl IndexError
           | first_row # _ \<Rightarrow>
               (let series_open_time = fst first_row;
                    series_close_time = fst (last fundamental_series)
                in if query_time < series_open_time then Inr (snd first_row, self)
                   else if query_time > series_close_time
                   then Inr (snd (last fundamental_series), self)
                   else interpolate_and_log self smb fundamental_series query_time)))"

text \<open>\<^verbatim>\<open>int(round(x))\<close>: Python rounds a half to the even neighbour.\<close>

definition py_round :: "rat \<Rightarrow> int" where
  "py_round x =
     (let f = \<lfloor>x\<rfloor>; d = x - of_int f
      in if d < 1 / 2 then f else if 1 / 2 < d then f + 1 else if even f then f else f + 1)"

text \<open>
  \<^verbatim>\<open>observePrice\<close>. The generator is \<^verbatim>\<open>None\<close> or a \<^verbatim>\<open>RandomState\<close>; its draw
  \<^verbatim>\<open>random_state.normal(loc=true_price, scale=sqrt(sigma_n))\<close> is the parameter \<open>normal\<close>
  (numpy is not among the sources). \<^verbatim>\<open>None.normal\<close> is an \<^verbatim>\<open>AttributeError\<close>, and
  \<^verbatim>\<open>sqrt\<close> of a negative number a \<^verbatim>\<open>ValueError\<close>.
\<close>

definition observePrice ::
  "('r \<Rightarrow> rat \<Rightarrow> rat \<Rightarrow> rat) \<Rightarrow> ExternalFileOracle \<Rightarrow> string \<Rightarrow> int \<Rightarrow> rat \<Rightarrow> 'r option
     \<Rightarrow> py_error + (int \<times> ExternalFileOracle)" where
  "observePrice normal self smb current_time sigma_n random_state =
     (case getPriceAtTime self smb current_time of Inl err \<Rightarrow> Inl err
      | Inr (true_price, self') \<Rightarrow>
          if sigma_n = 0 then Inr (py_round true_price, self')
          else (case random_state of None \<Rightarrow> Inl AttributeError
                | Some rs \<Rightarrow>
                    if sigma_n < 0 then Inl ValueError
                    else Inr (py_round (normal rs true_price sigma_n), self')))"

section \<open>Market replay agent (src/backtesting/agent/examples/MarketReplayAgentUSD.py)\<close>

text \<open>
  One record of \<^verbatim>\<open>orders_dict[current_time]\<close> is a dictionary with the keys \<^verbatim>\<open>Order_ID\<close>,
  \<^verbatim>\<open>Price\<close>, \<^verbatim>\<open>Direction\<close>, \<^verbatim>\<open>Size\<close> and \<^verbatim>\<open>Type\<close>.
\<close>

record order_record =
  Order_ID :: int
  Price :: int
  Direction :: string
  Size :: int
  Type :: string

text \<open>
  The arguments of \<^verbatim>\<open>LimitOrder(self.id, currentTime, self.symbol, order['Size'],
  order['Direction'] == 'BUY', order['Price'], order_id=order_id)\<close> of
  backtesting/order/base.py, which is not among the sources.
\<close>

record replacement_order =
  new_agent_id :: int
  new_time_placed :: int
  new_symbol :: string
  new_quantity :: int
  new_is_buy_order :: bool
  new_limit_price :: int
  new_order_id :: int

text \<open>
  The calls \<^verbatim>\<open>placeOrder\<close> makes on the inherited \<^verbatim>\<open>TradingAgent\<close>, which is not among
  the sources: \<^verbatim>\<open>placeLimitOrder(symbol, quantity, is_buy_order, limit_price, order_id)\<close>,
  \<^verbatim>\<open>cancelOrder(order)\<close> and \<^verbatim>\<open>modifyOrder(order, new_order)\<close>. What each does to the
  agent (of any type \<open>'s\<close>), the dictionary \<^verbatim>\<open>self.orders\<close> and the attributes \<^verbatim>\<open>self.id\<close>
  and \<^verbatim>\<open>self.symbol\<close> are parameters. An order found in \<^verbatim>\<open>self.orders\<close> counts as true.
\<close>

datatype 'o action =
    PlaceLimitOrder string int bool int int
  | CancelOrder 'o
  | ModifyOrder 'o replacement_order

record ('s, 'o) TradingAgent =
  agent_ident :: "'s \<Rightarrow> int"
  agent_symbol :: "'s \<Rightarrow> string"
  orders_get :: "'s \<Rightarrow> int \<Rightarrow> 'o option"
  placeLimitOrder :: "string \<Rightarrow> int \<Rightarrow> bool \<Rightarrow> int \<Rightarrow> int \<Rightarrow> 's \<Rightarrow> 's"
  cancelOrder :: "'o \<Rightarrow> 's \<Rightarrow> 's"
  modifyOrder :: "'o \<Rightarrow> replacement_order \<Rightarrow> 's \<Rightarrow> 's"

text \<open>A call changes the agent and is appended to the sequence of actions made so far.\<close>

fun perform :: "('s, 'o) TradingAgent \<Rightarrow> 'o action \<Rightarrow> 's \<times> 'o action list \<Rightarrow> 's \<times> 'o action list" where
  "perform T (PlaceLimitOrder smb qty buy lp oid) (s, acts) =
     (placeLimitOrder T smb qty buy lp oid s, acts @ [PlaceLimitOrder smb qty buy lp oid])"
| "perform T (CancelOrder ex) (s, acts) = (cancelOrder T ex s, acts @ [CancelOrder ex])"
| "perform T (ModifyOrder ex new_order) (s, acts) =
     (modifyOrder T ex new_order s, acts @ [ModifyOrder ex new_order])"

function placeOrder ::
  "('s, 'o) TradingAgent \<Rightarrow> int \<Rightarrow> order_record list \<Rightarrow> 's \<times> 'o action list \<Rightarrow> 's \<times> 'o action list" where
  "placeOrder T currentTime order st =
     (if length order = 1
      then (let the_order = hd order;
                order_id = Order_ID the_order;
                existing_order = orders_get T (fst st) order_id
            in case existing_order of
                 None \<Rightarrow>
                   if Size the_order > 0 \<and> Type the_order = ''R''
                   then perform T (PlaceLimitOrder (agent_symbol T (fst st)) (Size the_order)
                                     (Direction the_order = ''BUY'') (Price the_order) order_id) st
                   else st
               | Some existing \<Rightarrow>
                   if Size the_order = 0 then perform T (CancelOrder existing) st
                   else if Size the_order > 0
                   then perform T (ModifyOrder existing
                          \<lparr> new_agent_id = agent_ident T (fst st), new_time_placed = currentTime,
                            new_symbol = agent_symbol T (fst st), new_quantity = Size the_order,
                            new_is_buy_order = (Direction the_order = ''BUY''),
                            new_limit_price = Price the_order, new_order_id = order_id \<rparr>) st
                   else st)
      else fold (\<lambda>ind_order st'. placeOrder T currentTime [ind_order] st') order st)"
  by pat_completeness auto
termination
  by (relation "measure (\<lambda>(T, currentTime, order, st). if length order = 1 then 0 else 1)") auto

declare placeOrder.simps [simp del]

section \<open>Example values\<close>

definition example_env :: env where
  "example_env = \<lparr> silent_mode = False, dollarize = str_int, fmtTime = str_int \<rparr>"

definition bid100 :: "limit_class LimitOrder" where
  "bid100 = LimitOrder_init 7 Bid 1 0 ''USD/RUB'' 10 100 None None"

definition bid10 :: "limit_class LimitOrder" where
  "bid10 = LimitOrder_init 8 Bid 1 0 ''USD/RUB'' 10 10 None None"

definition ask100 :: "limit_class LimitOrder" where
  "ask100 = LimitOrder_init 9 Ask 1 0 ''USD/RUB'' 10 100 None None"

definition ask10 :: "limit_class LimitOrder" where
  "ask10 = LimitOrder_init 10 Ask 1 0 ''USD/RUB'' 10 10 None None"

definition example_world :: world where
  "example_world = \<lparr> heap = [LimitObj bid100, LimitObj bid10, LimitObj ask10], stdout = [] \<rparr>"

definition bid_mkt :: "limit_class LimitOrder" where
  "bid_mkt = LimitOrder_init 11 Bid 1 0 ''USD/RUB'' 10 sys_maxsize None None"

definition ask_above :: "limit_class LimitOrder" where
  "ask_above = LimitOrder_init 12 Ask 1 0 ''USD/RUB'' 10 (sys_maxsize + 1) None None"

definition example_basket :: "basket_class BasketOrder" where
  "example_basket = (BasketOrder_init 13 BasketOrder 2 0 ''ETF'' 5 True None)\<lparr> fill_price := Some 4200 \<rparr>"

definition example_market :: "market_class Order" where
  "example_market = MarketOrder_init 14 SellMarket 3 0 ''USD/RUB'' 6 (Some 77) (Some ''t'')"

definition mixed_world :: world where
  "mixed_world = \<lparr> heap = [MarketObj example_market, LimitObj bid100, BasketObj example_basket], stdout = [] \<rparr>"

definition example_ops :: "op list" where
  "example_ops = [Copy 0 1, SetFillPrice 3 (Some 99), SetFillPrice 1 (Some 98), DeepCopy 0 1,
                  NewLimit 20 Ask 1 0 ''USD/RUB'' 10 90 None None, IsMatch 1 5, HasBetterPrice 1 5]"

definition example_series :: series where
  "example_series = [(100, 10), (200, 20), (300, 40)]"

definition example_oracle :: ExternalFileOracle where
  "example_oracle = \<lparr> mkt_open = None, symbols = [''ABC'' \<mapsto> ''abc.bz2''],
      fundamentals = [''ABC'' \<mapsto> example_series], f_log = [''ABC'' \<mapsto> []] \<rparr>"

definition example_agent :: "(int list, int) TradingAgent" where
  "example_agent = \<lparr> agent_ident = (\<lambda>s. 1), agent_symbol = (\<lambda>s. ''ABC''),
      orders_get = (\<lambda>s i. if i \<in> set s then Some i else None),
      placeLimitOrder = (\<lambda>smb qty buy lp oid s. oid # s),
      cancelOrder = (\<lambda>ex s. s), modifyOrder = (\<lambda>ex new_order s. s) \<rparr>"

definition rec_place :: order_record where
  "rec_place = \<lparr> Order_ID = 1, Price = 100, Direction = ''BUY'', Size = 5, Type = ''R'' \<rparr>"

definition rec_cancel :: order_record where
  "rec_cancel = \<lparr> Order_ID = 1, Price = 100, Direction = ''BUY'', Size = 0, Type = ''R'' \<rparr>"

definition rec_other :: order_record where
  "rec_other = \<lparr> Order_ID = 2, Price = 100, Direction = ''SELL'', Size = 3, Type = ''A'' \<rparr>"

section \<open>Properties of the order model\<close>

lemmas ex_defs = bid100_def bid10_def ask100_def ask10_def LimitOrder_init_def Order_init_def
  Order.extend_def LimitOrder.fields_def

text \<open>
  C1. For a buy limit order \<open>A\<close> (a \<^verbatim>\<open>Bid\<close>) and a sell limit order \<open>B\<close> (an \<^verbatim>\<open>Ask\<close>),
  \<^verbatim>\<open>A.isMatch(B)\<close> and \<^verbatim>\<open>B.isMatch(A)\<close> both return whether
  \<^verbatim>\<open>A.limit_price >= B.limit_price\<close> (and print nothing); and for every pair of limit
  orders of opposite directions the two calls agree.
\<close>

theorem isMatch_buy_sell:
  "(cls A = Bid \<and> cls B = Ask \<longrightarrow>
      isMatch e A B = (limit_price A \<ge> limit_price B, []) \<and>
      isMatch e B A = (limit_price A \<ge> limit_price B, [])) \<and>
   (is_buy_order X \<noteq> is_buy_order Y \<longrightarrow> isMatch e X Y = isMatch e Y X)"
  by (cases "cls X"; cases "cls Y") (auto simp: isMatch_def is_buy_order_def)

theorem isMatch_buy_sell_witness:
  "isMatch example_env bid100 ask10 = (True, []) \<and> isMatch example_env ask10 bid100 = (True, []) \<and>
   isMatch example_env bid10 ask100 = (False, []) \<and> isMatch example_env ask100 bid10 = (False, [])"
  using isMatch_buy_sell [of bid100 ask10 example_env bid100 ask10]
        isMatch_buy_sell [of bid10 ask100 example_env bid10 ask100]
  by (simp add: ex_defs)

text \<open>
  The four doctests of \<^verbatim>\<open>hasBetterPrice\<close> in the source, on the orders they build
  (agent 1, time 1970, \<^verbatim>\<open>USD/RUB\<close>, quantity 10): the model gives what they expect.
\<close>

lemma hasBetterPrice_doctests:
  "hasBetterPrice ask10 ask100 = (True, [])"
  "hasBetterPrice bid10 bid100 = (False, [])"
  "hasBetterPrice bid10 bid10 = (False, [])"
  "hasBetterPrice ask10 bid100 =
     (False, [''WARNING: hasBetterPrice() called on orders of different type: Ask vs Bid''])"
  by (simp_all add: hasBetterPrice_def is_buy_order_def ex_defs)

text \<open>
  C2, as the code has it. For two \<^verbatim>\<open>Bid\<close>s with distinct limit prices, \<^verbatim>\<open>hasBetterPrice\<close> of
  the higher-priced bid with the lower-priced bid as argument returns \<^verbatim>\<open>True\<close>, and
  \<^verbatim>\<open>hasBetterPrice\<close> of the lower-priced bid with the higher-priced bid as argument
  returns \<^verbatim>\<open>False\<close>: the method tells whether \<^verbatim>\<open>self\<close> has the better price, and the
  doctest \<^verbatim>\<open>Bid(10).hasBetterPrice(Bid(100)) == False\<close> of the source says the same.
\<close>

theorem hasBetterPrice_bids:
  "cls H = Bid \<Longrightarrow> cls L = Bid \<Longrightarrow> limit_price L < limit_price H \<Longrightarrow>
     hasBetterPrice H L = (True, []) \<and> hasBetterPrice L H = (False, [])"
  by (simp add: hasBetterPrice_def is_buy_order_def)

theorem hasBetterPrice_bids_witness:
  "hasBetterPrice bid100 bid10 = (True, []) \<and> hasBetterPrice bid10 bid100 = (False, [])"
  using hasBetterPrice_bids [of bid100 bid10] by (simp add: ex_defs)

text \<open>
  The claim as the spec words it (the higher-priced bid's query about the lower one is
  \<^verbatim>\<open>False\<close>, the lower-priced bid's query about the higher one is \<^verbatim>\<open>True\<close>) fails on
  \<^verbatim>\<open>Bid(limit_price=100)\<close> and \<^verbatim>\<open>Bid(limit_price=10)\<close>.
\<close>

theorem hasBetterPrice_bids_counterexample:
  "\<not> (fst (hasBetterPrice bid100 bid10) = False \<and> fst (hasBetterPrice bid10 bid100) = True)"
  by (simp add: hasBetterPrice_def is_buy_order_def ex_defs)

text \<open>
  C3. \<^verbatim>\<open>hasBetterPrice\<close> is irreflexive: \<^verbatim>\<open>x.hasBetterPrice(x)\<close> is \<^verbatim>\<open>False\<close> for every limit
  order; for two limit orders of the same class with equal limit prices both queries are
  \<^verbatim>\<open>False\<close>; and for two \<^verbatim>\<open>Ask\<close>s the lower-priced one's query with the higher-priced one
  as argument is \<^verbatim>\<open>True\<close>.
\<close>

theorem hasBetterPrice_irreflexive:
  "hasBetterPrice x x = (False, []) \<and>
   (cls a = cls b \<and> limit_price a = limit_price b \<longrightarrow>
      hasBetterPrice a b = (False, []) \<and> hasBetterPrice b a = (False, [])) \<and>
   (cls lo = Ask \<and> cls hi = Ask \<and> limit_price lo < limit_price hi \<longrightarrow>
      hasBetterPrice lo hi = (True, []))"
  by (simp add: hasBetterPrice_def is_buy_order_def)

theorem hasBetterPrice_irreflexive_witness:
  "hasBetterPrice ask10 ask10 = (False, []) \<and> hasBetterPrice ask10 ask100 = (True, [])"
  using hasBetterPrice_irreflexive [of ask10 ask10 ask10 ask10 ask100] by (simp add: ex_defs)

lemma limit_at_example:
  "limit_at example_world 0 = Some bid100" "limit_at example_world 1 = Some bid10"
  "limit_at example_world 2 = Some ask10"
  by (simp_all add: limit_at_def lookup_def example_world_def)

lemma str_examples:
  "LimitOrder_str example_env bid100 = ''(Agent 1 @ 0) : BUY 10 USD/RUB @ 100''"
  "LimitOrder_str example_env bid10 = ''(Agent 1 @ 0) : BUY 10 USD/RUB @ 10''"
  by (simp_all add: is_buy_order_def ex_defs LimitOrder_str_def example_env_def str_int_def
     str_nat.simps digit_char_def tag_info_def limit_info_def filled_def sys_maxsize_def)

text \<open>
  C4. \<^verbatim>\<open>isMatch\<close> called on two limit orders of the same direction, and \<^verbatim>\<open>hasBetterPrice\<close>
  called on two limit orders of opposite directions, return \<^verbatim>\<open>False\<close> (a result, not an
  exception) and print one warning line; the store of orders after the call is the store
  before it.
\<close>

theorem usage_warning:
  "limit_at w a = Some A \<Longrightarrow> limit_at w b = Some B \<Longrightarrow>
   (is_buy_order A = is_buy_order B \<longrightarrow>
      call_isMatch e w a b =
        Some (False, w\<lparr> stdout := stdout w @
                [''WARNING: isMatch() called on limit orders of same type: ''
                 @ LimitOrder_str e A @ '' vs '' @ LimitOrder_str e B] \<rparr>)) \<and>
   (is_buy_order A \<noteq> is_buy_order B \<longrightarrow>
      call_hasBetterPrice w a b =
        Some (False, w\<lparr> stdout := stdout w @
                [''WARNING: hasBetterPrice() called on orders of different type: ''
                 @ class_name (cls A) @ '' vs '' @ class_name (cls B)] \<rparr>))"
  by (simp add: call_isMatch_def call_hasBetterPrice_def isMatch_def hasBetterPrice_def)

theorem usage_warning_witness:
  "call_isMatch example_env example_world 0 1 =
     Some (False, example_world\<lparr> stdout :=
        [''WARNING: isMatch() called on limit orders of same type: (Agent 1 @ 0) : BUY 10 USD/RUB @ 100 vs (Agent 1 @ 0) : BUY 10 USD/RUB @ 10''] \<rparr>) \<and>
   call_hasBetterPrice example_world 0 2 =
     Some (False, example_world\<lparr> stdout :=
        [''WARNING: hasBetterPrice() called on orders of different type: Bid vs Ask''] \<rparr>)"
proof -
  have same: "is_buy_order bid100 = is_buy_order bid10"
    by (simp add: is_buy_order_def ex_defs)
  have diff: "is_buy_order bid100 \<noteq> is_buy_order ask10"
    by (simp add: is_buy_order_def ex_defs)
  have out: "stdout example_world = []"
    by (simp add: example_world_def)
  have c: "cls bid100 = Bid" "cls ask10 = Ask"
    by (simp_all add: ex_defs)
  from usage_warning [OF limit_at_example(1) limit_at_example(2), of example_env] same
  have "call_isMatch example_env example_world 0 1 =
     Some (False, example_world\<lparr> stdout := stdout example_world @
        [''WARNING: isMatch() called on limit orders of same type: ''
          @ LimitOrder_str example_env bid100 @ '' vs '' @ LimitOrder_str example_env bid10] \<rparr>)"
    by blast
  moreover
  from usage_warning [OF limit_at_example(1) limit_at_example(3), of example_env] diff
  have "call_hasBetterPrice example_world 0 2 =
     Some (False, example_world\<lparr> stdout := stdout example_world @
        [''WARNING: hasBetterPrice() called on orders of different type: ''
          @ class_name (cls bid100) @ '' vs '' @ class_name (cls ask10)] \<rparr>)"
    by blast
  ultimately show ?thesis
    by (simp add: out c str_examples)
qed

subsection \<open>Copies, the sentinel price and the direction of an order\<close>

lemma lookup_new_old: "lookup w r = Some ob \<Longrightarrow> lookup (snd (new w c)) r = Some ob"
  by (auto simp: lookup_def new_def nth_append split: if_splits)

lemma lookup_new_fresh: "lookup (snd (new w c)) (fst (new w c)) = Some c"
  by (simp add: lookup_def new_def)

lemma new_fresh_ne: "lookup w r = Some ob \<Longrightarrow> fst (new w c) \<noteq> r"
  by (auto simp: lookup_def new_def split: if_splits)

lemma obj_copy_fields:
  "obj_class (obj_copy fresh ob) = obj_class ob"
  "obj_order_id (obj_copy fresh ob) = obj_order_id ob"
  "obj_quantity (obj_copy fresh ob) = obj_quantity ob"
  "obj_limit_price (obj_copy fresh ob) = obj_limit_price ob"
  "obj_fill_price (obj_copy fresh ob) = obj_fill_price ob"
  "constructible ob \<Longrightarrow> obj_tag (obj_copy fresh ob) = obj_tag ob"
  "constructible (obj_copy fresh ob)"
  by (cases ob; simp add: MarketOrder_copy_def LimitOrder_copy_def BasketOrder_copy_def
        MarketOrder_init_def LimitOrder_init_def BasketOrder_init_def Order_init_def
        Order.extend_def LimitOrder.fields_def BasketOrder.fields_def)+

lemma obj_deepcopy_eq: "obj_deepcopy fresh ob = obj_copy fresh ob"
  by (cases ob) (simp_all add: MarketOrder_copy_def LimitOrder_copy_def BasketOrder_deepcopy_def
        MarketOrder_deepcopy_def LimitOrder_deepcopy_def deepcopy_tag_def)

lemma set_fill_price_new:
  "lookup w r = Some ob \<Longrightarrow>
   \<exists>w''. set_fill_price (snd (new w c)) (fst (new w c)) p = Some w'' \<and>
         lookup w'' r = Some ob \<and>
         map_option obj_fill_price (lookup w'' (fst (new w c))) = Some p"
  by (cases c) (auto simp: set_fill_price_def lookup_def new_def nth_append split: if_splits)

lemma obj_set_fill_price_fields:
  "obj_class (obj_set_fill_price p ob) = obj_class ob"
  "obj_is_buy_order (obj_set_fill_price p ob) = obj_is_buy_order ob"
  "constructible (obj_set_fill_price p ob) = constructible ob"
  by (cases ob; simp add: mkt_is_buy_order_def is_buy_order_def)+

lemma obj_is_buy_order_class:
  "obj_class a = obj_class b \<Longrightarrow> obj_is_buy_order a = obj_is_buy_order b"
  by (cases a; cases b) (simp_all add: mkt_is_buy_order_def is_buy_order_def)

lemma exec_keeps_class:
  assumes "exec e x w = Some w'" and "r < length (heap w)"
  shows "r < length (heap w') \<and> obj_class (heap w' ! r) = obj_class (heap w ! r)"
proof (cases x)
  case (SetFillPrice a p)
  with assms show ?thesis
    by (cases "a = r")
       (auto simp: set_fill_price_def lookup_def obj_set_fill_price_fields split: if_splits)
qed (use assms in \<open>auto simp: new_def copy_def deepcopy_def call_isMatch_def
       call_hasBetterPrice_def lookup_def nth_append split: if_splits bind_splits\<close>)

lemma run_keeps_class:
  "run e ops w = Some w' \<Longrightarrow> r < length (heap w) \<Longrightarrow>
     r < length (heap w') \<and> obj_class (heap w' ! r) = obj_class (heap w ! r)"
proof (induction ops arbitrary: w)
  case Nil
  then show ?case by simp
next
  case (Cons x xs)
  then obtain w1 where x: "exec e x w = Some w1" and xs: "run e xs w1 = Some w'"
    by (auto split: option.splits)
  from exec_keeps_class [OF x Cons.prems(2)] Cons.IH [OF xs]
  show ?case by simp
qed

lemma exec_constructible:
  assumes "exec e x w = Some w'" and "list_all constructible (heap w)"
  shows "list_all constructible (heap w')"
proof (cases x)
  case (SetFillPrice a p)
  with assms show ?thesis
    by (auto simp: set_fill_price_def lookup_def list_all_length nth_list_update
          obj_set_fill_price_fields split: if_splits)
next
  case (NewBasket fresh agent time smb qty dl oid)
  with assms show ?thesis
    by (auto simp: new_def BasketOrder_init_def Order_init_def Order.extend_def BasketOrder.fields_def)
qed (use assms in \<open>auto simp: new_def copy_def deepcopy_def call_isMatch_def obj_deepcopy_eq
       call_hasBetterPrice_def lookup_def obj_copy_fields split: if_splits bind_splits\<close>)

lemma run_constructible:
  "run e ops w = Some w' \<Longrightarrow> list_all constructible (heap w) \<Longrightarrow> list_all constructible (heap w')"
proof (induction ops arbitrary: w)
  case Nil
  then show ?case by simp
next
  case (Cons x xs)
  then obtain w1 where x: "exec e x w = Some w1" and xs: "run e xs w1 = Some w'"
    by (auto split: option.splits)
  from Cons.IH [OF xs exec_constructible [OF x Cons.prems(2)]] show ?case .
qed

text \<open>
  C5. \<^verbatim>\<open>copy\<close> and \<^verbatim>\<open>deepcopy\<close> of an order of any variant create a second object, of the
  same class and with the same \<^verbatim>\<open>order_id\<close>, \<^verbatim>\<open>quantity\<close>, \<^verbatim>\<open>limit_price\<close> (for a limit
  order), \<^verbatim>\<open>tag\<close> and \<^verbatim>\<open>fill_price\<close>, and leave the original as it was; assigning any
  \<^verbatim>\<open>fill_price\<close> to the copy afterwards leaves the original unchanged. The order copied
  is one whose tag its constructor can have set: \<^verbatim>\<open>BasketOrder.__init__\<close> takes no tag, and
  \<^verbatim>\<open>BasketOrder.__copy__\<close> passes none on (lemma \<open>run_constructible\<close>: every order that
  the operations of types.py create is such an order).
\<close>

theorem copy_preserves_and_is_independent:
  assumes cp: "cp = copy \<or> cp = deepcopy"
    and ob: "lookup w r = Some ob"
    and ok: "constructible ob"
  shows "\<exists>r' w' c. cp fresh w r = Some (r', w') \<and> r' \<noteq> r \<and>
           lookup w' r = Some ob \<and> lookup w' r' = Some c \<and>
           obj_class c = obj_class ob \<and> obj_order_id c = obj_order_id ob \<and>
           obj_quantity c = obj_quantity ob \<and> obj_limit_price c = obj_limit_price ob \<and>
           obj_tag c = obj_tag ob \<and> obj_fill_price c = obj_fill_price ob \<and>
           (\<forall>p. \<exists>w''. set_fill_price w' r' p = Some w'' \<and> lookup w'' r = Some ob \<and>
                  map_option obj_fill_price (lookup w'' r') = Some p)"
proof -
  let ?c = "obj_copy fresh ob"
  let ?n = "new w ?c"
  have call: "cp fresh w r = Some (fst ?n, snd ?n)"
    using cp ob by (auto simp: copy_def deepcopy_def obj_deepcopy_eq)
  have indep: "\<forall>p. \<exists>w''. set_fill_price (snd ?n) (fst ?n) p = Some w'' \<and> lookup w'' r = Some ob \<and>
                  map_option obj_fill_price (lookup w'' (fst ?n)) = Some p"
    using set_fill_price_new [OF ob] by blast
  show ?thesis
    using call new_fresh_ne [OF ob] lookup_new_old [OF ob] lookup_new_fresh indep
      obj_copy_fields(1-5) [of fresh ob] obj_copy_fields(6) [OF ok]
    by blast
qed

theorem copy_preserves_and_is_independent_witness:
  "(\<exists>r' w' c. deepcopy 0 mixed_world 2 = Some (r', w') \<and> r' \<noteq> 2 \<and>
      lookup w' 2 = Some (BasketObj example_basket) \<and> lookup w' r' = Some c \<and>
      obj_class c = BasketClass BasketOrder \<and> obj_order_id c = 13 \<and> obj_quantity c = 5 \<and>
      obj_limit_price c = None \<and> obj_tag c = None \<and> obj_fill_price c = Some 4200 \<and>
      (\<forall>p. \<exists>w''. set_fill_price w' r' p = Some w'' \<and>
             lookup w'' 2 = Some (BasketObj example_basket) \<and>
             map_option obj_fill_price (lookup w'' r') = Some p)) \<and>
   (\<exists>r' w' c. copy 0 mixed_world 0 = Some (r', w') \<and> r' \<noteq> 0 \<and>
      lookup w' 0 = Some (MarketObj example_market) \<and> lookup w' r' = Some c \<and>
      obj_class c = MarketClass SellMarket \<and> obj_order_id c = 77 \<and> obj_quantity c = 6 \<and>
      obj_limit_price c = None \<and> obj_tag c = Some ''t'' \<and> obj_fill_price c = None \<and>
      (\<forall>p. \<exists>w''. set_fill_price w' r' p = Some w'' \<and>
             lookup w'' 0 = Some (MarketObj example_market) \<and>
             map_option obj_fill_price (lookup w'' r') = Some p))"
proof -
  have b: "lookup mixed_world 2 = Some (BasketObj example_basket)"
    by (simp add: lookup_def mixed_world_def)
  have m: "lookup mixed_world 0 = Some (MarketObj example_market)"
    by (simp add: lookup_def mixed_world_def)
  have vb: "cls example_basket = BasketOrder" "order_id example_basket = 13"
      "quantity example_basket = 5" "tag example_basket = None"
      "fill_price example_basket = Some 4200"
    by (simp_all add: example_basket_def BasketOrder_init_def Order_init_def Order.extend_def
          BasketOrder.fields_def)
  have vm: "cls example_market = SellMarket" "order_id example_market = 77"
      "quantity example_market = 6" "tag example_market = Some ''t''"
      "fill_price example_market = None"
    by (simp_all add: example_market_def MarketOrder_init_def Order_init_def)
  have okb: "constructible (BasketObj example_basket)"
    by (simp add: vb)
  have okm: "constructible (MarketObj example_market)"
    by simp
  have 1: "deepcopy = copy \<or> deepcopy = deepcopy" and 2: "copy = copy \<or> copy = deepcopy"
    by simp_all
  show ?thesis
    using copy_preserves_and_is_independent [OF 1 b okb, of 0]
          copy_preserves_and_is_independent [OF 2 m okm, of 0]
    by (simp add: vb vm)
qed

text \<open>
  C6. For a limit order whose \<^verbatim>\<open>limit_price\<close> is \<^verbatim>\<open>sys.maxsize\<close> or above, the price is
  rendered as \<^verbatim>\<open>MKT\<close> (a smaller price \<open>p\<close> is rendered by \<^verbatim>\<open>dollarize\<close>; in silent mode
  the whole rendering is empty), while \<^verbatim>\<open>isMatch\<close> and \<^verbatim>\<open>hasBetterPrice\<close> are the plain
  comparisons of the two limit prices that they are for every other price.
\<close>

theorem sentinel_limit_price:
  "sys_maxsize \<le> limit_price a \<Longrightarrow>
     limit_info e (limit_price a) = ''MKT'' \<and>
     LimitOrder_str e a =
       (if silent_mode e then ''''
        else ''(Agent '' @ str_int (agent_id a) @ '' @ '' @ fmtTime e (time_placed a)
             @ tag_info (tag a) @ '') : '' @ (if is_buy_order a then ''BUY'' else ''SELL'')
             @ '' '' @ str_int (quantity a) @ '' '' @ symbol a @ '' @ MKT''
             @ filled e (fill_price a)) \<and>
     (p < sys_maxsize \<longrightarrow> limit_info e p = dollarize e p) \<and>
     (is_buy_order a \<noteq> is_buy_order b \<longrightarrow>
        isMatch e a b = ((if is_buy_order a then limit_price b \<le> limit_price a
                          else limit_price a \<le> limit_price b), []) \<and>
        isMatch e b a = ((if is_buy_order a then limit_price b \<le> limit_price a
                          else limit_price a \<le> limit_price b), [])) \<and>
     (is_buy_order a = is_buy_order b \<longrightarrow>
        hasBetterPrice a b = ((if is_buy_order a then limit_price b < limit_price a
                               else limit_price a < limit_price b), []) \<and>
        hasBetterPrice b a = ((if is_buy_order a then limit_price a < limit_price b
                               else limit_price b < limit_price a), []))"
  by (auto simp: limit_info_def LimitOrder_str_def isMatch_def hasBetterPrice_def)

theorem sentinel_limit_price_witness:
  "LimitOrder_str example_env bid_mkt = ''(Agent 1 @ 0) : BUY 10 USD/RUB @ MKT'' \<and>
   isMatch example_env bid_mkt ask100 = (True, []) \<and>
   isMatch example_env ask100 bid_mkt = (True, []) \<and>
   isMatch example_env bid_mkt ask_above = (False, []) \<and>
   hasBetterPrice bid_mkt bid100 = (True, []) \<and>
   hasBetterPrice bid100 bid_mkt = (False, [])"
proof -
  have h: "sys_maxsize \<le> limit_price bid_mkt"
    by (simp add: bid_mkt_def LimitOrder_init_def Order.extend_def LimitOrder.fields_def Order_init_def)
  have d: "is_buy_order bid_mkt" "\<not> is_buy_order ask100" "\<not> is_buy_order ask_above" "is_buy_order bid100"
    by (simp_all add: is_buy_order_def bid_mkt_def ask_above_def ex_defs)
  have v: "limit_price bid_mkt = 9223372036854775807" "limit_price ask100 = 100"
      "limit_price ask_above = 9223372036854775808" "limit_price bid100 = 100"
      "agent_id bid_mkt = 1" "time_placed bid_mkt = 0" "tag bid_mkt = None" "quantity bid_mkt = 10"
      "symbol bid_mkt = ''USD/RUB''" "fill_price bid_mkt = None"
    by (simp_all add: bid_mkt_def ask_above_def ex_defs sys_maxsize_def)
  have s: "str_int 1 = ''1''" "str_int 0 = ''0''" "str_int 10 = ''10''"
    by (simp_all add: str_int_def str_nat.simps digit_char_def)
  from sentinel_limit_price [OF h, of example_env 0 ask100]
       sentinel_limit_price [OF h, of example_env 0 ask_above]
       sentinel_limit_price [OF h, of example_env 0 bid100]
  show ?thesis
    by (simp add: d v s example_env_def tag_info_def filled_def)
qed

text \<open>
  C7. \<^verbatim>\<open>is_buy_order\<close> is a constant of the class: true for \<^verbatim>\<open>BuyMarket\<close> and \<^verbatim>\<open>Bid\<close>,
  false for \<^verbatim>\<open>SellMarket\<close> and \<^verbatim>\<open>Ask\<close>. A constructed order has the value of its class,
  a copy and a deep copy have the class and the value of the order copied, and after any
  sequence of operations (constructions, copies, assignments to \<^verbatim>\<open>fill_price\<close>, calls of
  \<^verbatim>\<open>isMatch\<close> and \<^verbatim>\<open>hasBetterPrice\<close>) every order of the store has the class and the
  \<^verbatim>\<open>is_buy_order\<close> it had before.
\<close>

theorem is_buy_order_fixed:
  "market_is_buy_order BuyMarket \<and> \<not> market_is_buy_order SellMarket \<and>
   limit_is_buy_order Bid \<and> \<not> limit_is_buy_order Ask \<and>
   mkt_is_buy_order (MarketOrder_init fresh mc agent time smb qty oid tg) = market_is_buy_order mc \<and>
   is_buy_order (LimitOrder_init fresh lc agent time smb qty lp oid tg) = limit_is_buy_order lc \<and>
   obj_class (obj_copy fresh ob) = obj_class ob \<and>
   obj_is_buy_order (obj_copy fresh ob) = obj_is_buy_order ob \<and>
   obj_class (obj_deepcopy fresh ob) = obj_class ob \<and>
   obj_is_buy_order (obj_deepcopy fresh ob) = obj_is_buy_order ob \<and>
   (run e ops w = Some w' \<and> r < length (heap w) \<longrightarrow>
      r < length (heap w') \<and> obj_class (heap w' ! r) = obj_class (heap w ! r) \<and>
      obj_is_buy_order (heap w' ! r) = obj_is_buy_order (heap w ! r))"
proof -
  have new: "mkt_is_buy_order (MarketOrder_init fresh mc agent time smb qty oid tg) = market_is_buy_order mc"
       "is_buy_order (LimitOrder_init fresh lc agent time smb qty lp oid tg) = limit_is_buy_order lc"
    by (simp_all add: mkt_is_buy_order_def is_buy_order_def MarketOrder_init_def LimitOrder_init_def
          Order_init_def Order.extend_def LimitOrder.fields_def)
  have cp: "obj_is_buy_order (obj_copy fresh ob) = obj_is_buy_order ob"
    by (rule obj_is_buy_order_class) (rule obj_copy_fields(1))
  have run: "run e ops w = Some w' \<and> r < length (heap w) \<longrightarrow>
      r < length (heap w') \<and> obj_class (heap w' ! r) = obj_class (heap w ! r) \<and>
      obj_is_buy_order (heap w' ! r) = obj_is_buy_order (heap w ! r)"
    using run_keeps_class [of e ops w w' r] obj_is_buy_order_class by blast
  show ?thesis
    using new cp run by (simp add: obj_copy_fields(1) obj_deepcopy_eq)
qed

theorem is_buy_order_fixed_witness:
  "\<exists>w'. run example_env example_ops mixed_world = Some w' \<and> 1 < length (heap w') \<and>
      obj_class (heap w' ! 1) = LimitClass Bid \<and> obj_is_buy_order (heap w' ! 1) = Some True"
proof -
  have r: "run example_env example_ops mixed_world \<noteq> None"
    by (simp add: example_ops_def mixed_world_def copy_def deepcopy_def set_fill_price_def lookup_def
          new_def call_isMatch_def call_hasBetterPrice_def limit_at_def)
  then obtain w' where w': "run example_env example_ops mixed_world = Some w'"
    by blast
  have h: "(1::nat) < length (heap mixed_world)"
    by (simp add: mixed_world_def)
  have o: "obj_class (heap mixed_world ! 1) = LimitClass Bid" "obj_is_buy_order (heap mixed_world ! 1) = Some True"
    by (simp_all add: mixed_world_def ex_defs is_buy_order_def)
  from is_buy_order_fixed [of _ _ _ _ _ _ _ _ _ _ _ example_env example_ops mixed_world w' 1] w' h o
  show ?thesis by simp
qed

section \<open>Properties of the oracle\<close>

text \<open>
  A query inside the series, for comparison: between the rows at 200 and 300 the price is
  interpolated and the query is appended to \<^verbatim>\<open>f_log\<close>.
\<close>

lemma bisect_left_example: "bisect_left (map fst example_series) 275 = 2"
  by (simp add: bisect_left_def example_series_def bisect_loop.simps)

lemma getPriceAtTime_interpolates:
  "getPriceAtTime example_oracle ''ABC'' 275 =
     Inr (35, example_oracle\<lparr> f_log := [''ABC'' \<mapsto> [(275, 35)]] \<rparr>)"
proof -
  have "interpolate_and_log example_oracle ''ABC'' example_series 275 =
     Inr (35, example_oracle\<lparr> f_log := [''ABC'' \<mapsto> [(275, 35)]] \<rparr>)"
    unfolding interpolate_and_log_def bisect_left_example
    by (simp add: example_series_def example_oracle_def py_index_def getInterpolatedPrice_def
          total_seconds_def)
  then show ?thesis
    by (simp add: getPriceAtTime_def example_oracle_def example_series_def)
qed

text \<open>
  C8. With \<^verbatim>\<open>sigma_n == 0\<close>, \<^verbatim>\<open>observePrice\<close> returns
  \<^verbatim>\<open>int(round(getPriceAtTime(symbol, current_time)))\<close> (and fails as \<^verbatim>\<open>getPriceAtTime\<close>
  fails), whatever the generator: two calls that differ only in \<^verbatim>\<open>random_state\<close>, \<^verbatim>\<open>None\<close>
  included, and in what a generator would draw, give the same result.
\<close>

theorem observePrice_noiseless:
  "observePrice normal self smb t 0 random_state =
     map_sum id (\<lambda>(true_price, self'). (py_round true_price, self')) (getPriceAtTime self smb t) \<and>
   observePrice normal self smb t 0 random_state = observePrice normal' self smb t 0 random_state'"
  by (simp add: observePrice_def split: sum.splits prod.splits)

theorem observePrice_noiseless_witness:
  "observePrice (\<lambda>(rs::nat) loc sigma. loc + 1) example_oracle ''ABC'' 50 0 None =
     Inr (10, example_oracle) \<and>
   observePrice (\<lambda>(rs::nat) loc sigma. loc - 7) example_oracle ''ABC'' 50 0 (Some 3) =
     Inr (10, example_oracle)"
proof -
  have g: "getPriceAtTime example_oracle ''ABC'' 50 = Inr (10, example_oracle)"
    by (simp add: getPriceAtTime_def example_oracle_def example_series_def)
  have r: "py_round 10 = 10"
    by (simp add: py_round_def)
  note c = observePrice_noiseless [of "\<lambda>(rs::nat) loc sigma. loc + 1" example_oracle "''ABC''" 50 None
         "\<lambda>(rs::nat) loc sigma. loc - 7" "Some 3"]
  have a: "observePrice (\<lambda>(rs::nat) loc sigma. loc + 1) example_oracle ''ABC'' 50 0 None =
          Inr (10, example_oracle)"
    using c [THEN conjunct1] by (simp add: g r)
  have "observePrice (\<lambda>(rs::nat) loc sigma. loc - 7) example_oracle ''ABC'' 50 0 (Some 3) =
          observePrice (\<lambda>(rs::nat) loc sigma. loc + 1) example_oracle ''ABC'' 50 0 None"
    by (rule c [THEN conjunct2, symmetric])
  also note a
  finally show ?thesis using a by simp
qed

text \<open>
  C9. For a symbol with a non-empty fundamental series, a query time before the first
  timestamp returns the first value of the series and a query time after the last
  timestamp returns the last value; in both cases the oracle, and so its \<^verbatim>\<open>f_log\<close>, is
  returned as it was (no interpolated value is computed or logged). The first timestamp of
  the series is not after its last one, as in every series in order of time.
\<close>

theorem getPriceAtTime_clamped:
  "fundamentals self smb = Some fundamental_series \<Longrightarrow> fundamental_series \<noteq> [] \<Longrightarrow>
   (t < fst (hd fundamental_series) \<longrightarrow>
      getPriceAtTime self smb t = Inr (snd (hd fundamental_series), self)) \<and>
   (fst (hd fundamental_series) \<le> fst (last fundamental_series) \<and> fst (last fundamental_series) < t \<longrightarrow>
      getPriceAtTime self smb t = Inr (snd (last fundamental_series), self))"
  by (cases fundamental_series) (auto simp: getPriceAtTime_def Let_def)

theorem getPriceAtTime_clamped_witness:
  "getPriceAtTime example_oracle ''ABC'' 50 = Inr (10, example_oracle) \<and>
   getPriceAtTime example_oracle ''ABC'' 350 = Inr (40, example_oracle)"
proof -
  have f: "fundamentals example_oracle ''ABC'' = Some example_series"
    by (simp add: example_oracle_def)
  have n: "example_series \<noteq> []"
    by (simp add: example_series_def)
  have v: "hd example_series = (100, 10)" "last example_series = (300, 40)"
    by (simp_all add: example_series_def)
  from getPriceAtTime_clamped [OF f n, of 50] getPriceAtTime_clamped [OF f n, of 350]
  show ?thesis by (simp add: v)
qed

section \<open>Properties of the market replay agent\<close>

text \<open>
  C10. On a list of two or more records \<^verbatim>\<open>placeOrder\<close> is \<^verbatim>\<open>placeOrder\<close> on the one-element
  list of each record in turn, each call starting from the agent and the actions the
  calls before it left; and on a single record whose \<^verbatim>\<open>Order_ID\<close> has no order in
  \<^verbatim>\<open>self.orders\<close> and whose \<^verbatim>\<open>Type\<close> is not \<^verbatim>\<open>'R'\<close> (or whose \<^verbatim>\<open>Size\<close> is not positive)
  it makes no call: the agent and the sequence of actions are unchanged.
\<close>

theorem placeOrder_sequence:
  "(2 \<le> length rs \<longrightarrow>
      placeOrder T t rs st = fold (\<lambda>r st'. placeOrder T t [r] st') rs st) \<and>
   (orders_get T (fst st) (Order_ID r) = None \<and> (Type r \<noteq> ''R'' \<or> \<not> 0 < Size r) \<longrightarrow>
      placeOrder T t [r] st = st)"
proof (intro conjI impI)
  assume "2 \<le> length rs"
  then have "length rs \<noteq> 1" by simp
  then show "placeOrder T t rs st = fold (\<lambda>r st'. placeOrder T t [r] st') rs st"
    by (subst placeOrder.simps) simp
next
  assume "orders_get T (fst st) (Order_ID r) = None \<and> (Type r \<noteq> ''R'' \<or> \<not> 0 < Size r)"
  then show "placeOrder T t [r] st = st"
    by (subst placeOrder.simps) auto
qed

theorem placeOrder_sequence_witness:
  "placeOrder example_agent 0 [rec_place, rec_cancel, rec_other] ([], []) =
     ([1], [PlaceLimitOrder ''ABC'' 5 True 100 1, CancelOrder 1]) \<and>
   placeOrder example_agent 0 [rec_other] ([1], []) = ([1], [])"
proof -
  have 1: "placeOrder example_agent 0 [rec_place] ([], []) = ([1], [PlaceLimitOrder ''ABC'' 5 True 100 1])"
    by (subst placeOrder.simps) (simp add: example_agent_def rec_place_def)
  have 2: "placeOrder example_agent 0 [rec_cancel] ([1], [PlaceLimitOrder ''ABC'' 5 True 100 1]) =
             ([1], [PlaceLimitOrder ''ABC'' 5 True 100 1, CancelOrder 1])"
    by (subst placeOrder.simps) (simp add: example_agent_def rec_cancel_def)
  have g: "orders_get example_agent [1] (Order_ID rec_other) = None" "Type rec_other \<noteq> ''R''"
    by (simp_all add: example_agent_def rec_other_def)
  have 3: "placeOrder example_agent 0 [rec_other] ([1], acts) = ([1], acts)" for acts
    using placeOrder_sequence [of "[]" example_agent 0 "([1], acts)" rec_other] g by simp
  from placeOrder_sequence [of "[rec_place, rec_cancel, rec_other]" example_agent 0 "([], [])" rec_other]
  show ?thesis
    by (simp add: 1 2 3)
qed

end
